theory Spec2Isabelle
  imports Complex_Main "HOL-Library.Word"
begin

section \<open>Bytes, binary strings and base64\<close>

text \<open>
  The component under study is \<^verbatim>\<open>src/App.js\<close>, one React component
  (\<^verbatim>\<open>SpotifyReactTest\<close>). A \<^verbatim>\<open>Uint8Array\<close> is a list of 8-bit words. A
  JavaScript string whose code units are all below 256 (the only strings that reach
  \<^verbatim>\<open>btoa\<close> and \<^verbatim>\<open>TextEncoder\<close> here) is a \<open>string\<close>, one \<open>char\<close> per code unit.
\<close>

type_synonym byte = "8 word"

text \<open>\<^verbatim>\<open>String.fromCharCode.apply(null, array)\<close>: one code unit per byte.\<close>

definition fromCharCode :: "byte list \<Rightarrow> string" where
  "fromCharCode array = map (\<lambda>b. char_of (unat b)) array"

text \<open>
  \<^verbatim>\<open>btoa\<close> is the platform's base64 encoder (RFC 4648 section 4): the standard
  alphabet, three code units to four digits, the last group padded with \<^verbatim>\<open>=\<close>.
\<close>

definition b64_alphabet :: string where
  "b64_alphabet = ''ABCDEFGHIJKLMNOPQRSTUVWXYZabcdefghijklmnopqrstuvwxyz0123456789+/''"

definition b64_digit :: "nat \<Rightarrow> char" where
  "b64_digit i = b64_alphabet ! i"

fun btoa :: "string \<Rightarrow> string" where
  "btoa [] = []"
| "btoa [a] =
     [b64_digit (of_char a div 4), b64_digit (of_char a mod 4 * 16), CHR ''='', CHR ''='']"
| "btoa [a, b] =
     [b64_digit (of_char a div 4),
      b64_digit (of_char a mod 4 * 16 + of_char b div 16),
      b64_digit (of_char b mod 16 * 4), CHR ''='']"
| "btoa (a # b # c # rest) =
     [b64_digit (of_char a div 4),
      b64_digit (of_char a mod 4 * 16 + of_char b div 16),
      b64_digit (of_char b mod 16 * 4 + of_char c div 64),
      b64_digit (of_char c mod 64)] @ btoa rest"

text \<open>\<^verbatim>\<open>s.replace(/c/g, 'd')\<close> and \<^verbatim>\<open>s.replace(/c/g, '')\<close> for a single character.\<close>

definition replace_all :: "char \<Rightarrow> char \<Rightarrow> string \<Rightarrow> string" where
  "replace_all c d s = map (\<lambda>x. if x = c then d else x) s"

definition remove_all :: "char \<Rightarrow> string \<Rightarrow> string" where
  "remove_all c s = filter (\<lambda>x. x \<noteq> c) s"

text \<open>
  \<^verbatim>\<open>new TextEncoder().encode(s)\<close>: UTF-8. A code unit below 128 is one byte, one
  from 128 to 255 is two.
\<close>

definition encode_unit :: "char \<Rightarrow> byte list" where
  "encode_unit c =
     (if (of_char c :: nat) < 128 then [of_nat (of_char c)]
      else [of_nat (192 + of_char c div 64), of_nat (128 + of_char c mod 64)])"

definition encode :: "string \<Rightarrow> byte list" where
  "encode s = concat (map encode_unit s)"

text \<open>
  The specification's encoding, written from its words: base64url without padding
  (RFC 4648 section 5, the URL-safe alphabet, no \<^verbatim>\<open>=\<close>).
\<close>

definition b64url_alphabet :: string where
  "b64url_alphabet = ''ABCDEFGHIJKLMNOPQRSTUVWXYZabcdefghijklmnopqrstuvwxyz0123456789-_''"

definition b64url_digit :: "nat \<Rightarrow> char" where
  "b64url_digit i = b64url_alphabet ! i"

fun base64url :: "byte list \<Rightarrow> string" where
  "base64url [] = []"
| "base64url [a] = [b64url_digit (unat a div 4), b64url_digit (unat a mod 4 * 16)]"
| "base64url [a, b] =
     [b64url_digit (unat a div 4),
      b64url_digit (unat a mod 4 * 16 + unat b div 16),
      b64url_digit (unat b mod 16 * 4)]"
| "base64url (a # b # c # rest) =
     [b64url_digit (unat a div 4),
      b64url_digit (unat a mod 4 * 16 + unat b div 16),
      b64url_digit (unat b mod 16 * 4 + unat c div 64),
      b64url_digit (unat c mod 64)] @ base64url rest"

section \<open>The component's state\<close>

text \<open>
  \<^verbatim>\<open>encodeURIComponent\<close>: the unreserved characters stand for themselves, every
  other code unit is UTF-8 encoded and each byte written as \<^verbatim>\<open>%XX\<close>.
\<close>

definition unreserved :: "char \<Rightarrow> bool" where
  "unreserved c =
     (c \<in> set (''ABCDEFGHIJKLMNOPQRSTUVWXYZabcdefghijklmnopqrstuvwxyz0123456789-_.!~*()''
               @ [CHR 0x27]))"

definition hex_digit :: "nat \<Rightarrow> char" where
  "hex_digit n = ''0123456789ABCDEF'' ! n"

definition percent :: "byte \<Rightarrow> string" where
  "percent b = [CHR ''%'', hex_digit (unat b div 16), hex_digit (unat b mod 16)]"

definition encodeURIComponent :: "string \<Rightarrow> string" where
  "encodeURIComponent s =
     concat (map (\<lambda>c. if unreserved c then [c] else concat (map percent (encode_unit c))) s)"

text \<open>An entry of the trace log, \<^verbatim>\<open>{ timestamp, message, type }\<close>.\<close>

record log_entry =
  timestamp :: string
  message :: string
  entry_type :: string

text \<open>The verdict of the capture probe, \<^verbatim>\<open>results\<close> in \<^verbatim>\<open>testAudioCapture\<close>.\<close>

record capture_results =
  displayMedia :: bool
  webAudio :: bool
  mediaRecorder :: bool
  error :: "string option"

text \<open>
  The options object handed to \<^verbatim>\<open>new window.Spotify.Player\<close>, with the event
  names registered on it. \<^verbatim>\<open>getOAuthToken\<close> is the closure
  \<^verbatim>\<open>cb => { cb(token); }\<close>: what it holds is the \<^verbatim>\<open>token\<close> argument of
  \<^verbatim>\<open>initializePlayer\<close>.
\<close>

record spotify_player =
  player_name :: string
  closure_token :: string
  volume :: rat
  listeners :: "string list"

text \<open>A request issued through \<^verbatim>\<open>fetch\<close>.\<close>

record http_request =
  url :: string
  http_method :: string
  headers :: "(string \<times> string) list"
  body :: string

text \<open>
  The React state of the component (the eight \<^verbatim>\<open>useState\<close> cells) and the parts
  of the browser it reads and writes: session storage, the parsed query string of
  \<^verbatim>\<open>window.location.search\<close>, the address the window shows or navigates to,
  origin plus path (\<^verbatim>\<open>REDIRECT_URI\<close>), the wall clock as
  \<^verbatim>\<open>toLocaleTimeString\<close> prints it, the random generator behind
  \<^verbatim>\<open>crypto.getRandomValues\<close> with the number of bytes drawn so far, every request
  sent with \<^verbatim>\<open>fetch\<close>, the media tracks acquired and not yet stopped, and the
  number of audio contexts open.
\<close>

record app =
  authStatus :: string
  player :: "spotify_player option"
  deviceId :: "string option"
  accessToken :: "string option"
  isPaused :: bool
  currentTrack :: "string option"
  logs :: "log_entry list"
  audioCaptureResult :: "capture_results option"
  sessionStorage :: "string \<rightharpoonup> string"
  location_search :: "(string \<times> string) list"
  location_href :: string
  REDIRECT_URI :: string
  clock :: string
  rng :: "nat \<Rightarrow> byte"
  drawn :: nat
  requests :: "http_request list"
  live_tracks :: "nat list"
  open_contexts :: nat

definition CLIENT_ID :: string where
  "CLIENT_ID = ''994bacff4dea4100864d3197b151fe95''"

fun join :: "string \<Rightarrow> string list \<Rightarrow> string" where
  "join sep [] = []"
| "join sep [x] = x"
| "join sep (x # y # ys) = x @ sep @ join sep (y # ys)"

definition SCOPES :: string where
  "SCOPES = join '' ''
     [''streaming'', ''user-read-email'', ''user-read-private'',
      ''user-read-playback-state'', ''user-modify-playback-state'']"

text \<open>
  \<^verbatim>\<open>log(message, type)\<close> appends an entry stamped with the clock
  (\<^verbatim>\<open>console.log\<close> repeats it outside the component and is left out).
\<close>

definition log_js :: "string \<Rightarrow> string \<Rightarrow> app \<Rightarrow> app" where
  "log_js msg ty s =
     s\<lparr>logs := logs s @ [\<lparr>timestamp = clock s, message = msg, entry_type = ty\<rparr>]\<rparr>"

text \<open>Emoji of the status lines and log messages, as their UTF-8 bytes.\<close>

definition cross_mark :: string where
  "cross_mark = [CHR 0xE2, CHR 0x9D, CHR 0x8C]"

definition check_mark :: string where
  "check_mark = [CHR 0xE2, CHR 0x9C, CHR 0x85]"

definition arrows_mark :: string where
  "arrows_mark = [CHR 0xF0, CHR 0x9F, CHR 0x94, CHR 0x84]"

definition speaker_mark :: string where
  "speaker_mark = [CHR 0xF0, CHR 0x9F, CHR 0x94, CHR 0x8A]"

definition shuffle_mark :: string where
  "shuffle_mark = [CHR 0xF0, CHR 0x9F, CHR 0x94, CHR 0x80]"

definition green_mark :: string where
  "green_mark = [CHR 0xF0, CHR 0x9F, CHR 0x9F, CHR 0xA2]"

definition red_mark :: string where
  "red_mark = [CHR 0xF0, CHR 0x9F, CHR 0x94, CHR 0xB4]"

section \<open>PKCE\<close>

text \<open>
  \<^verbatim>\<open>crypto.getRandomValues(new Uint8Array(n))\<close>: the next \<open>n\<close> bytes of the
  generator.
\<close>

definition getRandomValues :: "nat \<Rightarrow> app \<Rightarrow> byte list \<times> app" where
  "getRandomValues n s = (map (rng s) [drawn s ..< drawn s + n], s\<lparr>drawn := drawn s + n\<rparr>)"

text \<open>The chain \<^verbatim>\<open>btoa(...).replace(/\+/g, '-').replace(/\//g, '_').replace(/=/g, '')\<close>.\<close>

definition btoa_url :: "byte list \<Rightarrow> string" where
  "btoa_url array =
     remove_all (CHR ''='')
       (replace_all (CHR ''/'') (CHR ''_'')
         (replace_all (CHR ''+'') (CHR ''-'') (btoa (fromCharCode array))))"

definition generateCodeVerifier :: "app \<Rightarrow> string \<times> app" where
  "generateCodeVerifier s = (case getRandomValues 32 s of (array, s') \<Rightarrow> (btoa_url array, s'))"

text \<open>
  \<^verbatim>\<open>crypto.subtle.digest(algorithm, data)\<close> belongs to the browser: the functions
  that call it take it as \<open>digest\<close>.
\<close>

definition generateCodeChallenge ::
  "(string \<Rightarrow> byte list \<Rightarrow> byte list) \<Rightarrow> string \<Rightarrow> string" where
  "generateCodeChallenge digest verifier = btoa_url (digest ''SHA-256'' (encode verifier))"

definition authorize_url :: "string \<Rightarrow> string \<Rightarrow> string" where
  "authorize_url redirect codeChallenge =
     ''https://accounts.spotify.com/authorize?'' @
     ''client_id='' @ CLIENT_ID @ ''&'' @
     ''response_type=code&'' @
     ''redirect_uri='' @ encodeURIComponent redirect @ ''&'' @
     ''scope='' @ encodeURIComponent SCOPES @ ''&'' @
     ''code_challenge_method=S256&'' @
     ''code_challenge='' @ codeChallenge @ ''&'' @
     ''show_dialog=true''"

definition authenticate :: "(string \<Rightarrow> byte list \<Rightarrow> byte list) \<Rightarrow> app \<Rightarrow> app" where
  "authenticate digest s =
     (let s1 = log_js ''Starting PKCE Spotify authentication...'' ''info'' s in
      case generateCodeVerifier s1 of
        (codeVerifier, s2) \<Rightarrow>
          (let codeChallenge = generateCodeChallenge digest codeVerifier;
               s3 = s2\<lparr>sessionStorage := (sessionStorage s2)(''code_verifier'' \<mapsto> codeVerifier)\<rparr>
           in s3\<lparr>location_href := authorize_url (REDIRECT_URI s3) codeChallenge\<rparr>))"

section \<open>The authorization callback\<close>

text \<open>
  JavaScript truthiness of a value that is a string or \<^verbatim>\<open>null\<close>/\<^verbatim>\<open>undefined\<close>:
  the empty string is falsy too.
\<close>

definition truthy :: "string option \<Rightarrow> bool" where
  "truthy v = (case v of None \<Rightarrow> False | Some x \<Rightarrow> x \<noteq> [])"

text \<open>
  \<^verbatim>\<open>new URLSearchParams(window.location.search).get(name)\<close>: the value of the
  first pair named \<open>name\<close>, \<^verbatim>\<open>null\<close> when there is none.
\<close>

definition get_param :: "(string \<times> string) list \<Rightarrow> string \<Rightarrow> string option" where
  "get_param params name = map_of params name"

text \<open>A nullable string inside a template literal.\<close>

definition interpolate :: "string \<Rightarrow> string option \<Rightarrow> string" where
  "interpolate absent v = (case v of None \<Rightarrow> absent | Some x \<Rightarrow> x)"

text \<open>A number inside a template literal: its decimal digits.\<close>

fun string_of_nat :: "nat \<Rightarrow> string" where
  "string_of_nat n =
     (if n < 10 then [char_of (48 + n)]
      else string_of_nat (n div 10) @ [char_of (48 + n mod 10)])"

declare string_of_nat.simps [simp del]

text \<open>
  What \<^verbatim>\<open>fetch\<close> answers: the promise rejects with a message, or resolves with a
  response, whose \<^verbatim>\<open>json()\<close> rejects or yields an object (its string fields).
\<close>

datatype json_result = JsonError string | JsonObject "(string \<times> string) list"

record http_response =
  status :: nat
  json :: json_result

datatype fetch_result = NetworkError string | Response http_response

text \<open>\<^verbatim>\<open>response.ok\<close>: a status from 200 to 299.\<close>

definition ok :: "http_response \<Rightarrow> bool" where
  "ok r = (200 \<le> status r \<and> status r \<le> 299)"

text \<open>
  What the \<^verbatim>\<open>try\<close> block of \<^verbatim>\<open>handleAuthCallback\<close> can throw: its own two
  \<^verbatim>\<open>new Error(...)\<close>, a rejected \<^verbatim>\<open>fetch\<close>, a rejected \<^verbatim>\<open>json()\<close>.
\<close>

datatype exchange_error =
    MissingVerifier
  | TokenExchangeFailed nat string
  | FetchRejected string
  | JsonRejected string

fun error_message :: "exchange_error \<Rightarrow> string" where
  "error_message MissingVerifier = ''Code verifier not found''"
| "error_message (TokenExchangeFailed st description) =
     ''Token exchange failed: '' @ string_of_nat st @ '' - '' @ description"
| "error_message (FetchRejected m) = m"
| "error_message (JsonRejected m) = m"

text \<open>
  The paths through \<^verbatim>\<open>handleAuthCallback\<close>: the early return on \<^verbatim>\<open>error\<close>,
  no \<^verbatim>\<open>code\<close>, the \<^verbatim>\<open>catch\<close>, a success response without
  \<^verbatim>\<open>access_token\<close>, and the token. Only the last returns a value; the others
  return \<^verbatim>\<open>undefined\<close>.
\<close>

datatype outcome =
    AuthDenied string
  | NoPendingAuthentication
  | ExchangeError exchange_error
  | NoAccessToken
  | Authenticated string

fun returned :: "outcome \<Rightarrow> string option" where
  "returned (Authenticated token) = Some token"
| "returned _ = None"

text \<open>\<^verbatim>\<open>errorData.error_description || errorData.error\<close> in the template literal.\<close>

definition describe_error :: "(string \<times> string) list \<Rightarrow> string" where
  "describe_error errorData =
     (if truthy (map_of errorData ''error_description'')
      then interpolate ''undefined'' (map_of errorData ''error_description'')
      else interpolate ''undefined'' (map_of errorData ''error''))"

definition token_request :: "string \<Rightarrow> string \<Rightarrow> string \<Rightarrow> http_request" where
  "token_request code redirect storedCodeVerifier =
     \<lparr>url = ''https://accounts.spotify.com/api/token'',
      http_method = ''POST'',
      headers = [(''Content-Type'', ''application/x-www-form-urlencoded'')],
      body = ''grant_type=authorization_code&code='' @ code @
             ''&redirect_uri='' @ encodeURIComponent redirect @
             ''&client_id='' @ CLIENT_ID @
             ''&code_verifier='' @ storedCodeVerifier\<rparr>"

definition setAuthStatus :: "string \<Rightarrow> app \<Rightarrow> app" where
  "setAuthStatus v s = s\<lparr>authStatus := v\<rparr>"

text \<open>
  The body of the \<^verbatim>\<open>try\<close> block, for the answer \<open>net\<close> that \<^verbatim>\<open>fetch\<close> gives
  if it is called. \<open>Inl\<close> is a throw, with the state reached when it happens.
\<close>

definition exchange :: "fetch_result \<Rightarrow> string \<Rightarrow> app \<Rightarrow> exchange_error \<times> app + outcome \<times> app" where
  "exchange net code s =
     (let storedCodeVerifier = sessionStorage s ''code_verifier'' in
      if \<not> truthy storedCodeVerifier then Inl (MissingVerifier, s)
      else
        let s1 = s\<lparr>requests := requests s @
                   [token_request code (REDIRECT_URI s) (interpolate ''null'' storedCodeVerifier)]\<rparr>
        in (case net of
             NetworkError m \<Rightarrow> Inl (FetchRejected m, s1)
           | Response tokenResponse \<Rightarrow>
               (case json tokenResponse of
                  JsonError m \<Rightarrow> Inl (JsonRejected m, s1)
                | JsonObject tokenData \<Rightarrow>
                    if \<not> ok tokenResponse
                    then Inl (TokenExchangeFailed (status tokenResponse) (describe_error tokenData), s1)
                    else if truthy (map_of tokenData ''access_token'')
                    then
                      (let token = interpolate ''undefined'' (map_of tokenData ''access_token'');
                           s2 = s1\<lparr>accessToken := Some token\<rparr>;
                           s3 = log_js (check_mark @ '' Access token obtained with PKCE'') ''success'' s2;
                           s4 = setAuthStatus (check_mark @ '' Authenticated with Spotify'') s3;
                           s5 = s4\<lparr>sessionStorage := (sessionStorage s4)(''code_verifier'' := None)\<rparr>;
                           s6 = s5\<lparr>location_href := REDIRECT_URI s5, location_search := []\<rparr>
                       in Inr (Authenticated token, s6))
                    else Inr (NoAccessToken, s1))))"

definition handleAuthCallback :: "fetch_result \<Rightarrow> app \<Rightarrow> outcome \<times> app" where
  "handleAuthCallback net s =
     (let code = get_param (location_search s) ''code'';
          error = get_param (location_search s) ''error''
      in if truthy error then
           (AuthDenied (interpolate ''null'' error),
            setAuthStatus (cross_mark @ '' Authentication failed'')
              (log_js (''Authentication error: '' @ interpolate ''null'' error) ''error'' s))
         else if truthy code then
           (let s1 = log_js ''Authorization code received, exchanging for token with PKCE...'' ''info'' s;
                s2 = setAuthStatus (arrows_mark @ '' Exchanging code for token...'') s1
            in case exchange net (interpolate ''null'' code) s2 of
                 Inl (e, s3) \<Rightarrow>
                   (ExchangeError e,
                    setAuthStatus (cross_mark @ '' Token exchange failed'')
                      (log_js (''Token exchange error: '' @ error_message e) ''error'' s3))
               | Inr r \<Rightarrow> r)
         else (NoPendingAuthentication, s))"

section \<open>The playback device\<close>



text \<open>The payload of \<^verbatim>\<open>player_state_changed\<close>, as far as the handler reads it.\<close>

record artist =
  artist_name :: string

record track =
  track_name :: string
  artists :: "artist list"

record track_window =
  current_track :: "track option"

record playback_state =
  paused :: bool
  track_window :: track_window

text \<open>An exception leaving a handler: reading a property of \<^verbatim>\<open>undefined\<close>.\<close>

datatype exception = TypeError

text \<open>
  The \<^verbatim>\<open>player_state_changed\<close> listener, for the event payload \<open>state\<close> and the
  answer \<open>currentState\<close> of \<^verbatim>\<open>spotifyPlayer.getCurrentState()\<close>.
  \<^verbatim>\<open>artists[0].name\<close> throws when \<^verbatim>\<open>artists\<close> is empty: \<open>Inl\<close>, with
  the state updates queued before the throw.
\<close>

definition check_active :: "playback_state option \<Rightarrow> app \<Rightarrow> app" where
  "check_active currentState s =
     (case currentState of
        None \<Rightarrow> log_js ''Player is not active - transfer playback needed'' ''info'' s
      | Some _ \<Rightarrow> s)"

definition player_state_changed ::
  "playback_state option \<Rightarrow> playback_state option \<Rightarrow> app \<Rightarrow> exception \<times> app + app" where
  "player_state_changed state currentState s =
     (case state of
        None \<Rightarrow> Inr ((s\<lparr>currentTrack := None\<rparr>)\<lparr>isPaused := True\<rparr>)
      | Some st \<Rightarrow>
          (let s1 = s\<lparr>isPaused := paused st\<rparr> in
           (case current_track (track_window st) of
              None \<Rightarrow> Inr (check_active currentState s1)
            | Some tr \<Rightarrow>
                (case artists tr of
                   [] \<Rightarrow> Inl (TypeError, s1)
                 | first # _ \<Rightarrow>
                     (let track = artist_name first @ '' - '' @ track_name tr;
                          s2 = s1\<lparr>currentTrack := Some track\<rparr>;
                          s3 = log_js (''Now playing: '' @ track) ''info'' s2
                      in Inr (check_active currentState s3))))))"

text \<open>
  What a handler leaves behind: the state React commits, whether the handler returned
  or threw, and the exception if it threw.
\<close>

definition committed :: "exception \<times> app + app \<Rightarrow> app" where
  "committed r = (case r of Inl (e, s) \<Rightarrow> s | Inr s \<Rightarrow> s)"

definition thrown :: "exception \<times> app + app \<Rightarrow> exception option" where
  "thrown r = (case r of Inl (e, s) \<Rightarrow> Some e | Inr s \<Rightarrow> None)"

section \<open>The capture probes\<close>

text \<open>
  A media stream is the list of its tracks. Acquiring a stream
  (\<^verbatim>\<open>getUserMedia\<close>, \<^verbatim>\<open>getDisplayMedia\<close> resolving) engages its tracks;
  \<^verbatim>\<open>track.stop()\<close> releases one.
\<close>

datatype track_kind = AudioTrack | VideoTrack

record media_track =
  track_id :: nat
  kind :: track_kind

type_synonym media_stream = "media_track list"

definition acquire :: "media_stream \<Rightarrow> app \<Rightarrow> app" where
  "acquire stream s = s\<lparr>live_tracks := live_tracks s @ map track_id stream\<rparr>"

definition stop :: "media_track \<Rightarrow> app \<Rightarrow> app" where
  "stop t s = s\<lparr>live_tracks := filter (\<lambda>i. i \<noteq> track_id t) (live_tracks s)\<rparr>"

text \<open>\<^verbatim>\<open>stream.getTracks().forEach(track => track.stop())\<close>.\<close>

definition stop_all :: "media_stream \<Rightarrow> app \<Rightarrow> app" where
  "stop_all stream s = fold stop stream s"

definition getAudioTracks :: "media_stream \<Rightarrow> media_track list" where
  "getAudioTracks stream = filter (\<lambda>t. kind t = AudioTrack) stream"

text \<open>
  \<^verbatim>\<open>typeof MediaRecorder\<close> is \<^verbatim>\<open>'undefined'\<close>, or the constructor exists and
  \<^verbatim>\<open>MediaRecorder.isTypeSupported('audio/webm')\<close> throws or answers.
\<close>

datatype media_recorder = Undefined | Defined "string + bool"

text \<open>
  The first \<^verbatim>\<open>try\<close>/\<^verbatim>\<open>catch\<close> of \<^verbatim>\<open>testAudioCapture\<close>, for the answer of
  \<^verbatim>\<open>navigator.mediaDevices.getDisplayMedia\<close> (\<open>Inl\<close>: it throws or rejects, with
  the error's message).
\<close>

definition test_system_audio ::
  "string + media_stream \<Rightarrow> capture_results \<Rightarrow> app \<Rightarrow> capture_results \<times> app" where
  "test_system_audio answer results s =
     (let s1 = log_js ''Testing getDisplayMedia for system audio...'' ''info'' s in
      case answer of
        Inl m \<Rightarrow>
          (results\<lparr>error := Some m\<rparr>,
           log_js (cross_mark @ '' System audio capture failed: '' @ m) ''error'' s1)
      | Inr displayStream \<Rightarrow>
          let s2 = acquire displayStream s1 in
          if length (getAudioTracks displayStream) > 0
          then (results\<lparr>displayMedia := True\<rparr>,
                stop_all displayStream
                  (log_js (check_mark @ '' System audio capture: SUCCESS'') ''success'' s2))
          else (results, s2))"

text \<open>The second \<^verbatim>\<open>try\<close>/\<^verbatim>\<open>catch\<close>.\<close>

definition test_media_recorder ::
  "media_recorder \<Rightarrow> capture_results \<Rightarrow> app \<Rightarrow> capture_results \<times> app" where
  "test_media_recorder recorder results s =
     (case recorder of
        Undefined \<Rightarrow> (results, s)
      | Defined (Inl m) \<Rightarrow> (results, log_js (''MediaRecorder test failed: '' @ m) ''error'' s)
      | Defined (Inr supported) \<Rightarrow>
          if supported
          then (results\<lparr>mediaRecorder := True\<rparr>,
                log_js (check_mark @ '' MediaRecorder supported'') ''success'' s)
          else (results, s))"

definition testAudioCapture :: "string + media_stream \<Rightarrow> media_recorder \<Rightarrow> app \<Rightarrow> app" where
  "testAudioCapture answer recorder s =
     (let s0 = log_js (speaker_mark @ '' CRITICAL TEST: Testing audio capture capabilities...'')
                 ''warning'' s;
          results = \<lparr>displayMedia = False, webAudio = True, mediaRecorder = False, error = None\<rparr>
      in case test_system_audio answer results s0 of
           (results1, s1) \<Rightarrow>
             (case test_media_recorder recorder results1 s1 of
                (results2, s2) \<Rightarrow>
                  let s3 = s2\<lparr>audioCaptureResult := Some results2\<rparr> in
                  if displayMedia results2
                  then log_js (green_mark @
                         '' VERDICT: Audio capture POSSIBLE - Spotify integration viable!'')
                         ''success'' s3
                  else log_js (red_mark @
                         '' VERDICT: Audio capture NOT possible - Recommend built-in player'')
                         ''error'' s3))"

text \<open>
  \<^verbatim>\<open>testFullAudioMixing\<close>, for the answers of \<^verbatim>\<open>getUserMedia\<close> and
  \<^verbatim>\<open>getDisplayMedia\<close>, of \<^verbatim>\<open>new AudioContext()\<close> (\<open>Some\<close>: it throws) and of
  the graph construction that follows (\<open>Some\<close>: one of its calls throws). Everything
  is inside one \<^verbatim>\<open>try\<close>; the \<^verbatim>\<open>catch\<close> logs the message.
\<close>

definition mixing_failed :: "string \<Rightarrow> app \<Rightarrow> app" where
  "mixing_failed m s = log_js (cross_mark @ '' Audio mixing failed: '' @ m) ''error'' s"

definition testFullAudioMixing ::
  "string + media_stream \<Rightarrow> string + media_stream \<Rightarrow> string option \<Rightarrow> string option \<Rightarrow> app \<Rightarrow> app"
  where
  "testFullAudioMixing mic display context_error graph_error s =
     (let s0 = log_js (shuffle_mark @ '' Testing full audio mixing (mic + system)...'') ''warning'' s in
      (case mic of
         Inl m \<Rightarrow> mixing_failed m s0
       | Inr micStream \<Rightarrow>
           (let s1 = log_js (check_mark @ '' Microphone access granted'') ''info''
                       (acquire micStream s0) in
            (case display of
               Inl m \<Rightarrow> mixing_failed m s1
             | Inr systemStream \<Rightarrow>
                 (let s2 = log_js (check_mark @ '' System audio access granted'') ''info''
                             (acquire systemStream s1) in
                  (case context_error of
                     Some m \<Rightarrow> mixing_failed m s2
                   | None \<Rightarrow>
                       (let s3 = s2\<lparr>open_contexts := open_contexts s2 + 1\<rparr> in
                        (case graph_error of
                           Some m \<Rightarrow> mixing_failed m s3
                         | None \<Rightarrow>
                             (let s4 = log_js (check_mark @ '' FULL AUDIO MIXING: SUCCESS!'')
                                         ''success'' s3;
                                  s5 = log_js (check_mark @
                                         '' Coach voice + Spotify music mixing confirmed'')
                                         ''success'' s4;
                                  s6 = stop_all micStream s5;
                                  s7 = stop_all systemStream s6
                              in s7\<lparr>open_contexts := open_contexts s7 - 1\<rparr>)))))))))"

section \<open>A freshly loaded page\<close>

text \<open>
  The component as React mounts it (the initial values of its \<^verbatim>\<open>useState\<close>
  cells), in a tab opened at \<^verbatim>\<open>http://localhost:3000/\<close> with empty session
  storage.
\<close>

definition fresh_page :: app where
  "fresh_page =
     \<lparr>authStatus = ''Initializing...'',
      player = None,
      deviceId = None,
      accessToken = None,
      isPaused = True,
      currentTrack = None,
      logs = [],
      audioCaptureResult = None,
      sessionStorage = Map.empty,
      location_search = [],
      location_href = ''http://localhost:3000/'',
      REDIRECT_URI = ''http://localhost:3000/'',
      clock = ''12:00:00'',
      rng = (\<lambda>i. of_nat (7 * i + 3)),
      drawn = 0,
      requests = [],
      live_tracks = [],
      open_contexts = 0\<rparr>"

text \<open>
  The browser arriving at the redirect URI: the query string parsed into \<open>params\<close>,
  session storage holding \<open>verifier\<close> under \<^verbatim>\<open>code_verifier\<close> (or nothing).
\<close>

definition callback_page :: "(string \<times> string) list \<Rightarrow> string option \<Rightarrow> app \<Rightarrow> app" where
  "callback_page params verifier s =
     s\<lparr>location_search := params,
       sessionStorage := (sessionStorage s)(''code_verifier'' := verifier)\<rparr>"

text \<open>The token endpoint granting \<open>token\<close>, and refusing the exchange.\<close>

definition token_granted :: "string \<Rightarrow> fetch_result" where
  "token_granted token = Response \<lparr>status = 200, json = JsonObject [(''access_token'', token)]\<rparr>"

definition token_refused :: fetch_result where
  "token_refused = Response \<lparr>status = 400, json = JsonObject [(''error'', ''invalid_grant'')]\<rparr>"

section \<open>The component's life\<close>



















section \<open>The encoding chain is base64url\<close>

text \<open>
  Replacing \<^verbatim>\<open>+\<close> and \<^verbatim>\<open>/\<close> turns the standard alphabet into the URL-safe
  one, and no digit of either is \<^verbatim>\<open>=\<close>, so that stripping \<^verbatim>\<open>=\<close> removes the
  padding and nothing else.
\<close>

lemma alphabet_subst:
  "replace_all (CHR ''/'') (CHR ''_'') (replace_all (CHR ''+'') (CHR ''-'') b64_alphabet) = b64url_alphabet"
  by (simp add: replace_all_def b64_alphabet_def b64url_alphabet_def)

lemma length_b64_alphabet: "length b64_alphabet = 64"
  by (simp add: b64_alphabet_def)

lemma length_b64url_alphabet: "length b64url_alphabet = 64"
  by (simp add: b64url_alphabet_def)

lemma digit_subst:
  assumes "i < 64"
  shows "(if (if b64_digit i = CHR ''+'' then CHR ''-'' else b64_digit i) = CHR ''/'' then CHR ''_''
          else (if b64_digit i = CHR ''+'' then CHR ''-'' else b64_digit i)) = b64url_digit i"
proof -
  let ?f = "\<lambda>x. if (if x = CHR ''+'' then CHR ''-'' else x) = CHR ''/'' then CHR ''_''
                 else (if x = CHR ''+'' then CHR ''-'' else x)"
  have "map ?f b64_alphabet = b64url_alphabet"
    using alphabet_subst by (simp add: replace_all_def comp_def)
  then have "map ?f b64_alphabet ! i = b64url_alphabet ! i"
    by (rule arg_cong)
  moreover have "map ?f b64_alphabet ! i = ?f (b64_alphabet ! i)"
    using assms by (intro nth_map) (simp add: length_b64_alphabet)
  ultimately show ?thesis
    by (simp only: b64_digit_def b64url_digit_def)
qed

lemma digit_not_pad:
  assumes "i < 64"
  shows "b64url_digit i \<noteq> CHR ''=''"
proof -
  have "b64url_digit i \<in> set b64url_alphabet"
    using assms by (simp add: b64url_digit_def length_b64url_alphabet)
  moreover have "CHR ''='' \<notin> set b64url_alphabet"
    by (simp add: b64url_alphabet_def)
  ultimately show ?thesis by metis
qed

lemma unat_byte: "unat (a :: byte) < 256"
  using unsigned_less [of a, where ?'a = nat] by simp

lemma sextets:
  "unat (a :: byte) div 4 < 64"
  "unat (a :: byte) mod 4 * 16 < 64"
  "unat (a :: byte) mod 4 * 16 + unat (b :: byte) div 16 < 64"
  "unat (b :: byte) mod 16 * 4 < 64"
  "unat (b :: byte) mod 16 * 4 + unat (c :: byte) div 64 < 64"
  "unat (c :: byte) mod 64 < 64"
  using unat_byte [of a] unat_byte [of b] unat_byte [of c] by arith+

lemma unat_byte_mod: "unat (a :: byte) mod 256 = unat a"
  using unat_byte [of a] by simp

lemma btoa_url_base64url: "btoa_url array = base64url array"
proof (induction array rule: base64url.induct)
  case 1
  show ?case by (simp add: btoa_url_def fromCharCode_def replace_all_def remove_all_def)
next
  case (2 a)
  show ?case
    using digit_subst digit_not_pad sextets
    by (simp add: btoa_url_def fromCharCode_def replace_all_def remove_all_def unat_byte_mod)
next
  case (3 a b)
  show ?case
    using digit_subst digit_not_pad sextets
    by (simp add: btoa_url_def fromCharCode_def replace_all_def remove_all_def unat_byte_mod)
next
  case (4 a b c rest)
  then show ?case
    using digit_subst digit_not_pad sextets
    by (simp add: btoa_url_def fromCharCode_def replace_all_def remove_all_def unat_byte_mod)
qed


text \<open>
  The encoding is injective on arrays of one length: the 64 digits are distinct, and
  the four sextets of a group determine its three bytes.
\<close>

lemma distinct_b64url_alphabet: "distinct b64url_alphabet"
  by (simp add: b64url_alphabet_def)

lemma div_mod_eqD:
  fixes a a' :: nat
  assumes "a div k = a' div k" "a mod k = a' mod k"
  shows "a = a'"
  using assms by (metis div_mult_mod_eq)

lemma split_digits:
  fixes k x x' y y' :: nat
  assumes "x < k" "x' < k" "y * k + x = y' * k + x'"
  shows "y = y' \<and> x = x'"
proof -
  have "(y * k + x) div k = y" "(y * k + x) mod k = x"
    using assms(1) by simp_all
  moreover have "(y' * k + x') div k = y'" "(y' * k + x') mod k = x'"
    using assms(2) by simp_all
  ultimately show ?thesis
    using assms(3) by metis
qed

lemma group1_inj:
  fixes a a' :: nat
  assumes "a div 4 = a' div 4" "a mod 4 * 16 = a' mod 4 * 16"
  shows "a = a'"
proof -
  from assms(2) have "a mod 4 = a' mod 4" by simp
  with assms(1) show ?thesis by (rule div_mod_eqD)
qed

lemma group2_inj:
  fixes a a' b b' :: nat
  assumes "b < 256" "b' < 256"
    and "a div 4 = a' div 4"
    and "a mod 4 * 16 + b div 16 = a' mod 4 * 16 + b' div 16"
    and "b mod 16 * 4 = b' mod 16 * 4"
  shows "a = a' \<and> b = b'"
proof -
  have "b div 16 < 16" "b' div 16 < 16"
    using assms(1,2) by simp_all
  then have "a mod 4 = a' mod 4 \<and> b div 16 = b' div 16"
    using assms(4) by (rule split_digits)
  moreover from assms(5) have "b mod 16 = b' mod 16" by simp
  ultimately show ?thesis
    using assms(3) div_mod_eqD by blast
qed

lemma group3_inj:
  fixes a a' b b' c c' :: nat
  assumes "b < 256" "b' < 256" "c < 256" "c' < 256"
    and "a div 4 = a' div 4"
    and "a mod 4 * 16 + b div 16 = a' mod 4 * 16 + b' div 16"
    and "b mod 16 * 4 + c div 64 = b' mod 16 * 4 + c' div 64"
    and "c mod 64 = c' mod 64"
  shows "a = a' \<and> b = b' \<and> c = c'"
proof -
  have "b div 16 < 16" "b' div 16 < 16"
    using assms(1,2) by simp_all
  then have ab: "a mod 4 = a' mod 4 \<and> b div 16 = b' div 16"
    using assms(6) by (rule split_digits)
  have "c div 64 < 4" "c' div 64 < 4"
    using assms(3,4) by simp_all
  then have bc: "b mod 16 = b' mod 16 \<and> c div 64 = c' div 64"
    using assms(7) by (rule split_digits)
  show ?thesis
    using ab bc assms(5,8) div_mod_eqD by blast
qed

lemma digit_eqD:
  assumes "b64url_digit i = b64url_digit j" "i < 64" "j < 64"
  shows "i = j"
  using assms distinct_b64url_alphabet
  by (simp add: b64url_digit_def nth_eq_iff_index_eq length_b64url_alphabet)

lemma base64url_inj:
  "length xs = length ys \<Longrightarrow> base64url xs = base64url ys \<Longrightarrow> xs = ys"
proof (induction xs arbitrary: ys rule: base64url.induct)
  case 1
  then show ?case by simp
next
  case (2 a)
  then obtain a' where ys: "ys = [a']"
    by (cases ys) auto
  from 2(2) have e: "b64url_digit (unat a div 4) = b64url_digit (unat a' div 4)"
    "b64url_digit (unat a mod 4 * 16) = b64url_digit (unat a' mod 4 * 16)"
    by (simp_all add: ys)
  have "unat a div 4 = unat a' div 4"
    by (rule digit_eqD [OF e(1) sextets(1) sextets(1)])
  moreover have "unat a mod 4 * 16 = unat a' mod 4 * 16"
    by (rule digit_eqD [OF e(2) sextets(2) sextets(2)])
  ultimately have "unat a = unat a'" by (rule group1_inj)
  then show ?case by (simp add: ys word_unat_eq_iff)
next
  case (3 a b)
  then obtain a' b' where ys: "ys = [a', b']"
    by (cases ys; cases "tl ys") auto
  from 3(2) have e: "b64url_digit (unat a div 4) = b64url_digit (unat a' div 4)"
    "b64url_digit (unat a mod 4 * 16 + unat b div 16)
       = b64url_digit (unat a' mod 4 * 16 + unat b' div 16)"
    "b64url_digit (unat b mod 16 * 4) = b64url_digit (unat b' mod 16 * 4)"
    by (simp_all add: ys)
  have "unat a = unat a' \<and> unat b = unat b'"
    by (rule group2_inj [OF unat_byte unat_byte
          digit_eqD [OF e(1) sextets(1) sextets(1)]
          digit_eqD [OF e(2) sextets(3) sextets(3)]
          digit_eqD [OF e(3) sextets(4) sextets(4)]])
  then show ?case by (simp add: ys word_unat_eq_iff)
next
  case (4 a b c rest)
  then obtain a' b' c' rest' where ys: "ys = a' # b' # c' # rest'"
    by (cases ys; cases "tl ys"; cases "tl (tl ys)") auto
  from 4(3) have e: "b64url_digit (unat a div 4) = b64url_digit (unat a' div 4)"
    "b64url_digit (unat a mod 4 * 16 + unat b div 16)
       = b64url_digit (unat a' mod 4 * 16 + unat b' div 16)"
    "b64url_digit (unat b mod 16 * 4 + unat c div 64)
       = b64url_digit (unat b' mod 16 * 4 + unat c' div 64)"
    "b64url_digit (unat c mod 64) = b64url_digit (unat c' mod 64)"
    and r: "base64url rest = base64url rest'"
    by (simp_all add: ys)
  have "unat a = unat a' \<and> unat b = unat b' \<and> unat c = unat c'"
    by (rule group3_inj [OF unat_byte unat_byte unat_byte unat_byte
          digit_eqD [OF e(1) sextets(1) sextets(1)]
          digit_eqD [OF e(2) sextets(3) sextets(3)]
          digit_eqD [OF e(3) sextets(5) sextets(5)]
          digit_eqD [OF e(4) sextets(6) sextets(6)]])
  moreover have "rest = rest'"
    using 4(1) [of rest'] 4(2) r by (simp add: ys)
  ultimately show ?case by (simp add: ys word_unat_eq_iff)
qed


section \<open>Properties of the PKCE negotiation\<close>

lemma authenticate_stored:
  "sessionStorage (authenticate digest s) =
     (sessionStorage s)(''code_verifier'' \<mapsto> base64url (map (rng s) [drawn s ..< drawn s + 32]))"
  by (simp add: authenticate_def generateCodeVerifier_def getRandomValues_def log_js_def
      btoa_url_base64url Let_def)

lemma authenticate_href:
  "location_href (authenticate digest s) =
     authorize_url (REDIRECT_URI s)
       (base64url (digest ''SHA-256'' (encode (base64url (map (rng s) [drawn s ..< drawn s + 32])))))"
  by (simp add: authenticate_def generateCodeVerifier_def generateCodeChallenge_def
      getRandomValues_def log_js_def btoa_url_base64url Let_def)

lemma authenticate_generator:
  "drawn (authenticate digest s) = drawn s + 32"
  "rng (authenticate digest s) = rng s"
  "REDIRECT_URI (authenticate digest s) = REDIRECT_URI s"
  by (simp_all add: authenticate_def generateCodeVerifier_def getRandomValues_def log_js_def Let_def)

text \<open>
  Claim C1. In every state, \<^verbatim>\<open>authenticate\<close> draws 32 bytes from the random
  generator, stores as verifier their base64url encoding without padding, and sends
  as \<^verbatim>\<open>code_challenge\<close> the base64url encoding without padding of the SHA-256
  digest of that verifier. Each call draws anew: a second call reads the next 32
  bytes of the generator, computes verifier and challenge from them alone, and its
  verifier differs from the first whenever the bytes drawn differ.
\<close>

theorem authenticate_pkce:
  fixes digest :: "string \<Rightarrow> byte list \<Rightarrow> byte list" and s :: app
  defines "array \<equiv> map (rng s) [drawn s ..< drawn s + 32]"
    and "array' \<equiv> map (rng s) [drawn s + 32 ..< drawn s + 64]"
    and "s' \<equiv> authenticate digest s"
  shows "length array = 32
    \<and> sessionStorage s' ''code_verifier'' = Some (base64url array)
    \<and> location_href s' =
        authorize_url (REDIRECT_URI s) (base64url (digest ''SHA-256'' (encode (base64url array))))
    \<and> sessionStorage (authenticate digest s') ''code_verifier'' = Some (base64url array')
    \<and> location_href (authenticate digest s') =
        authorize_url (REDIRECT_URI s) (base64url (digest ''SHA-256'' (encode (base64url array'))))
    \<and> (array' \<noteq> array \<longrightarrow> base64url array' \<noteq> base64url array)"
proof -
  have "length array = 32"
    by (simp add: array_def)
  moreover have "sessionStorage s' ''code_verifier'' = Some (base64url array)"
    by (simp add: s'_def array_def authenticate_stored)
  moreover have "location_href s' =
      authorize_url (REDIRECT_URI s) (base64url (digest ''SHA-256'' (encode (base64url array))))"
    by (simp add: s'_def array_def authenticate_href)
  moreover have "sessionStorage (authenticate digest s') ''code_verifier'' = Some (base64url array')"
    by (simp add: s'_def array'_def authenticate_stored authenticate_generator add.assoc)
  moreover have "location_href (authenticate digest s') =
      authorize_url (REDIRECT_URI s) (base64url (digest ''SHA-256'' (encode (base64url array'))))"
    by (simp add: s'_def array'_def authenticate_href authenticate_generator add.assoc)
  moreover have "array' \<noteq> array \<longrightarrow> base64url array' \<noteq> base64url array"
    using base64url_inj [of array' array] by (auto simp: array_def array'_def)
  ultimately show ?thesis by blast
qed

text \<open>
  On a freshly loaded page, whatever the digest function: the two verifiers of two
  successive calls.
\<close>

theorem authenticate_pkce_witness:
  "\<forall>digest.
     sessionStorage (authenticate digest fresh_page) ''code_verifier''
       = Some ''AwoRGB8mLTQ7QklQV15lbHN6gYiPlp2kq7K5wMfO1dw''
   \<and> sessionStorage (authenticate digest (authenticate digest fresh_page)) ''code_verifier''
       = Some ''4-rx-P8GDRQbIikwNz5FTFNaYWhvdn2Ei5KZoKeutbw''
   \<and> base64url (map (rng fresh_page) [32 ..< 64]) \<noteq> base64url (map (rng fresh_page) [0 ..< 32])"
proof
  fix digest :: "string \<Rightarrow> byte list \<Rightarrow> byte list"
  have g: "drawn fresh_page = 0" "rng fresh_page = (\<lambda>i. of_nat (7 * i + 3))"
    by (simp_all add: fresh_page_def)
  have a: "base64url (map (\<lambda>i. of_nat (7 * i + 3)) [0 ..< 32])
             = ''AwoRGB8mLTQ7QklQV15lbHN6gYiPlp2kq7K5wMfO1dw''"
    by (simp add: upt_rec b64url_digit_def b64url_alphabet_def)
  have b: "base64url (map (\<lambda>i. of_nat (7 * i + 3)) [32 ..< 64])
             = ''4-rx-P8GDRQbIikwNz5FTFNaYWhvdn2Ei5KZoKeutbw''"
    by (simp add: upt_rec b64url_digit_def b64url_alphabet_def)
  have c: "map (\<lambda>i. of_nat (7 * i + 3) :: byte) [32 ..< 64] \<noteq> map (\<lambda>i. of_nat (7 * i + 3)) [0 ..< 32]"
    by (simp add: upt_rec)
  show "sessionStorage (authenticate digest fresh_page) ''code_verifier''
       = Some ''AwoRGB8mLTQ7QklQV15lbHN6gYiPlp2kq7K5wMfO1dw''
   \<and> sessionStorage (authenticate digest (authenticate digest fresh_page)) ''code_verifier''
       = Some ''4-rx-P8GDRQbIikwNz5FTFNaYWhvdn2Ei5KZoKeutbw''
   \<and> base64url (map (rng fresh_page) [32 ..< 64]) \<noteq> base64url (map (rng fresh_page) [0 ..< 32])"
    using authenticate_pkce [of fresh_page digest] c
    by (simp only: g a b semiring_norm) simp
qed

section \<open>Fields that logging and status updates leave alone\<close>

lemma logs_log_js:
  "logs (log_js m ty s) = logs s @ [\<lparr>timestamp = clock s, message = m, entry_type = ty\<rparr>]"
  by (simp add: log_js_def)

lemma log_js_fields [simp]:
  "clock (log_js m ty s) = clock s"
  "requests (log_js m ty s) = requests s"
  "sessionStorage (log_js m ty s) = sessionStorage s"
  "player (log_js m ty s) = player s"
  "audioCaptureResult (log_js m ty s) = audioCaptureResult s"
  "live_tracks (log_js m ty s) = live_tracks s"
  "open_contexts (log_js m ty s) = open_contexts s"
  by (simp_all add: log_js_def)

lemma setAuthStatus_fields [simp]:
  "requests (setAuthStatus v s) = requests s"
  "sessionStorage (setAuthStatus v s) = sessionStorage s"
  "player (setAuthStatus v s) = player s"
  by (simp_all add: setAuthStatus_def)

lemmas run_defs = handleAuthCallback_def exchange_def truthy_def interpolate_def get_param_def
  Let_def ok_def fresh_page_def log_js_def setAuthStatus_def token_request_def
  callback_page_def token_granted_def token_refused_def describe_error_def

lemmas uri_defs = CLIENT_ID_def encodeURIComponent_def unreserved_def encode_unit_def
  percent_def hex_digit_def

section \<open>Properties of the authorization callback\<close>

lemma exchange_missing:
  "\<not> truthy (sessionStorage s ''code_verifier'') \<Longrightarrow> exchange net code s = Inl (MissingVerifier, s)"
  by (simp add: exchange_def)

lemma exchange_storage:
  "exchange net code s = Inl (e, s') \<Longrightarrow> sessionStorage s' = sessionStorage s"
  "exchange net code s = Inr (NoAccessToken, s') \<Longrightarrow> sessionStorage s' = sessionStorage s"
  "exchange net code s = Inr (Authenticated t, s') \<Longrightarrow>
     sessionStorage s' = (sessionStorage s)(''code_verifier'' := None) \<and> location_search s' = []"
  by (auto simp: exchange_def Let_def split: if_splits fetch_result.splits json_result.splits)

lemma exchange_outcomes:
  "exchange net code s = Inr (r, s') \<Longrightarrow> r = NoAccessToken \<or> (\<exists>t. r = Authenticated t)"
  by (auto simp: exchange_def Let_def split: if_splits fetch_result.splits json_result.splits)



lemma handleAuthCallback_denied:
  assumes "get_param (location_search s) ''error'' = Some e" and "e \<noteq> []"
  shows "handleAuthCallback net s =
     (AuthDenied e,
      setAuthStatus (cross_mark @ '' Authentication failed'')
        (log_js (''Authentication error: '' @ e) ''error'' s))"
  using assms by (simp add: handleAuthCallback_def truthy_def interpolate_def Let_def)

lemma handleAuthCallback_missing:
  assumes "\<not> truthy (sessionStorage s ''code_verifier'')"
    and "truthy (get_param (location_search s) ''code'')"
    and "\<not> truthy (get_param (location_search s) ''error'')"
  shows "fst (handleAuthCallback net s) = ExchangeError MissingVerifier"
    and "requests (snd (handleAuthCallback net s)) = requests s"
  using assms by (simp_all add: handleAuthCallback_def exchange_missing Let_def)

text \<open>A callback that ends in a token had a code, had no error, and cleared the verifier.\<close>

lemma handleAuthCallback_success:
  assumes "fst (handleAuthCallback net s) = Authenticated t"
  shows "truthy (get_param (location_search s) ''code'')"
    and "\<not> truthy (get_param (location_search s) ''error'')"
    and "sessionStorage (snd (handleAuthCallback net s)) = (sessionStorage s)(''code_verifier'' := None)"
proof -
  show no_error: "\<not> truthy (get_param (location_search s) ''error'')"
    using assms by (auto simp: handleAuthCallback_def Let_def split: if_splits)
  show code: "truthy (get_param (location_search s) ''code'')"
    using assms by (auto simp: handleAuthCallback_def Let_def split: if_splits)
  let ?s2 = "setAuthStatus (arrows_mark @ '' Exchanging code for token...'')
      (log_js ''Authorization code received, exchanging for token with PKCE...'' ''info'' s)"
  let ?x = "exchange net (interpolate ''null'' (get_param (location_search s) ''code'')) ?s2"
  show "sessionStorage (snd (handleAuthCallback net s)) = (sessionStorage s)(''code_verifier'' := None)"
  proof (cases ?x)
    case (Inl a)
    then show ?thesis
      using assms no_error code by (simp add: handleAuthCallback_def Let_def split: prod.splits)
  next
    case (Inr b)
    obtain r s3 where b: "b = (r, s3)" by (cases b)
    have h: "handleAuthCallback net s = (r, s3)"
      using no_error code Inr b by (simp add: handleAuthCallback_def Let_def)
    with assms have "r = Authenticated t" by simp
    with exchange_storage(3) [of net _ ?s2 t s3] Inr b
    have "sessionStorage s3 = (sessionStorage s)(''code_verifier'' := None)" by simp
    with h show ?thesis by simp
  qed
qed

text \<open>Every other path leaves session storage as it was.\<close>

lemma handleAuthCallback_failure:
  assumes "\<forall>t. fst (handleAuthCallback net s) \<noteq> Authenticated t"
  shows "sessionStorage (snd (handleAuthCallback net s)) = sessionStorage s"
proof (cases "truthy (get_param (location_search s) ''error'')")
  case True
  then show ?thesis by (simp add: handleAuthCallback_def Let_def)
next
  case no_error: False
  show ?thesis
  proof (cases "truthy (get_param (location_search s) ''code'')")
    case False
    with no_error show ?thesis by (simp add: handleAuthCallback_def Let_def)
  next
    case True
    let ?s2 = "setAuthStatus (arrows_mark @ '' Exchanging code for token...'')
        (log_js ''Authorization code received, exchanging for token with PKCE...'' ''info'' s)"
    let ?x = "exchange net (interpolate ''null'' (get_param (location_search s) ''code'')) ?s2"
    show ?thesis
    proof (cases ?x)
      case (Inl a)
      obtain e s3 where a: "a = (e, s3)" by (cases a)
      have "sessionStorage s3 = sessionStorage s"
        using exchange_storage(1) [of net _ ?s2 e s3] Inl a by simp
      then show ?thesis
        using no_error True Inl a by (simp add: handleAuthCallback_def Let_def)
    next
      case (Inr b)
      obtain r s3 where b: "b = (r, s3)" by (cases b)
      have h: "handleAuthCallback net s = (r, s3)"
        using no_error True Inr b by (simp add: handleAuthCallback_def Let_def)
      with assms have "\<forall>t. r \<noteq> Authenticated t" by simp
      with exchange_outcomes [of net _ ?s2 r s3] Inr b have "r = NoAccessToken" by auto
      with exchange_storage(2) [of net _ ?s2 s3] Inr b have "sessionStorage s3 = sessionStorage s"
        by simp
      with h show ?thesis by simp
    qed
  qed
qed

text \<open>
  Claim C2, as the code has it. A successful token exchange clears the stored
  verifier, and handling the same callback URL again then fails with
  \<open>MissingVerifier\<close> without sending a request, whatever the token endpoint would
  answer. A callback that does not end in a token leaves session storage as it was:
  after a failed exchange the verifier is still stored. \<^verbatim>\<open>authenticate\<close> writes the
  one key \<^verbatim>\<open>code_verifier\<close>, replacing what it held, so that session storage never
  holds two verifiers.
\<close>

theorem verifier_single_use:
  "(fst (handleAuthCallback net s) = Authenticated token \<longrightarrow>
      sessionStorage (snd (handleAuthCallback net s)) ''code_verifier'' = None
      \<and> fst (handleAuthCallback net'
            ((snd (handleAuthCallback net s))\<lparr>location_search := location_search s\<rparr>))
          = ExchangeError MissingVerifier
      \<and> requests (snd (handleAuthCallback net'
            ((snd (handleAuthCallback net s))\<lparr>location_search := location_search s\<rparr>)))
          = requests (snd (handleAuthCallback net s)))
   \<and> ((\<forall>t. fst (handleAuthCallback net s) \<noteq> Authenticated t) \<longrightarrow>
      sessionStorage (snd (handleAuthCallback net s)) = sessionStorage s)
   \<and> sessionStorage (authenticate digest s) =
       (sessionStorage s)(''code_verifier'' \<mapsto> base64url (map (rng s) [drawn s ..< drawn s + 32]))"
proof (intro conjI impI)
  assume ok: "fst (handleAuthCallback net s) = Authenticated token"
  let ?s' = "snd (handleAuthCallback net s)"
  let ?replay = "?s'\<lparr>location_search := location_search s\<rparr>"
  note handleAuthCallback_success [OF ok]
  then show gone: "sessionStorage ?s' ''code_verifier'' = None" by simp
  then have "\<not> truthy (sessionStorage ?replay ''code_verifier'')"
    by (simp add: truthy_def)
  moreover have "truthy (get_param (location_search ?replay) ''code'')"
    "\<not> truthy (get_param (location_search ?replay) ''error'')"
    using handleAuthCallback_success(1,2) [OF ok] by simp_all
  ultimately show "fst (handleAuthCallback net' ?replay) = ExchangeError MissingVerifier"
    and "requests (snd (handleAuthCallback net' ?replay)) = requests ?s'"
    using handleAuthCallback_missing [of ?replay net'] by simp_all
next
  assume "\<forall>t. fst (handleAuthCallback net s) \<noteq> Authenticated t"
  then show "sessionStorage (snd (handleAuthCallback net s)) = sessionStorage s"
    by (rule handleAuthCallback_failure)
next
  show "sessionStorage (authenticate digest s) =
       (sessionStorage s)(''code_verifier'' \<mapsto> base64url (map (rng s) [drawn s ..< drawn s + 32]))"
    by (rule authenticate_stored)
qed

text \<open>
  A granted exchange followed by a replay of the same URL (one request in all), and a
  refused exchange.
\<close>

theorem verifier_single_use_witness:
  "fst (handleAuthCallback (token_granted ''tok'')
          (callback_page [(''code'', ''abc'')] (Some ''v'') fresh_page)) = Authenticated ''tok''
   \<and> sessionStorage (snd (handleAuthCallback (token_granted ''tok'')
          (callback_page [(''code'', ''abc'')] (Some ''v'') fresh_page))) ''code_verifier'' = None
   \<and> fst (handleAuthCallback (token_granted ''tok'')
          ((snd (handleAuthCallback (token_granted ''tok'')
             (callback_page [(''code'', ''abc'')] (Some ''v'') fresh_page)))
           \<lparr>location_search := [(''code'', ''abc'')]\<rparr>)) = ExchangeError MissingVerifier
   \<and> length (requests (snd (handleAuthCallback (token_granted ''tok'')
          ((snd (handleAuthCallback (token_granted ''tok'')
             (callback_page [(''code'', ''abc'')] (Some ''v'') fresh_page)))
           \<lparr>location_search := [(''code'', ''abc'')]\<rparr>)))) = 1
   \<and> sessionStorage (snd (handleAuthCallback token_refused
          (callback_page [(''code'', ''abc'')] (Some ''v'') fresh_page))) ''code_verifier'' = Some ''v''"
proof -
  let ?page = "callback_page [(''code'', ''abc'')] (Some ''v'') fresh_page"
  have granted: "fst (handleAuthCallback (token_granted ''tok'') ?page) = Authenticated ''tok''"
    by (simp add: run_defs)
  have refused: "\<forall>t. fst (handleAuthCallback token_refused ?page) \<noteq> Authenticated t"
    by (simp add: run_defs)
  have search: "location_search ?page = [(''code'', ''abc'')]"
    and stored: "sessionStorage ?page ''code_verifier'' = Some ''v''"
    by (simp_all add: callback_page_def)
  have sent: "length (requests (snd (handleAuthCallback (token_granted ''tok'') ?page))) = 1"
    by (simp add: run_defs)
  show ?thesis
    using verifier_single_use [of "token_granted ''tok''" ?page "''tok''" "token_granted ''tok''"]
      verifier_single_use [of token_refused ?page]
      granted refused sent
    by (simp add: search stored)
qed

text \<open>
  The claim as stated fails: the token endpoint refuses the exchange (status 400), the
  verifier stays in session storage, and handling the callback again sends a second
  request that carries the same verifier.
\<close>

theorem failed_exchange_counterexample:
  "fst (handleAuthCallback token_refused
          (callback_page [(''code'', ''abc'')] (Some ''v'') fresh_page))
     = ExchangeError (TokenExchangeFailed 400 ''invalid_grant'')
   \<and> sessionStorage (snd (handleAuthCallback token_refused
          (callback_page [(''code'', ''abc'')] (Some ''v'') fresh_page))) ''code_verifier'' = Some ''v''
   \<and> map body (requests (snd (handleAuthCallback token_refused
          (snd (handleAuthCallback token_refused
             (callback_page [(''code'', ''abc'')] (Some ''v'') fresh_page)))))) =
      [''grant_type=authorization_code&code=abc&redirect_uri=http%3A%2F%2Flocalhost%3A3000%2F&client_id=994bacff4dea4100864d3197b151fe95&code_verifier=v'',
       ''grant_type=authorization_code&code=abc&redirect_uri=http%3A%2F%2Flocalhost%3A3000%2F&client_id=994bacff4dea4100864d3197b151fe95&code_verifier=v'']"
  by (simp add: run_defs uri_defs)

text \<open>
  Claim C3, as the code has it. When the first \<^verbatim>\<open>error\<close> parameter of the query
  string is not empty, \<^verbatim>\<open>handleAuthCallback\<close> ends in \<open>AuthDenied\<close> with that
  value, logs it, sets the failure status and returns nothing; it sends no request and
  leaves the access token and session storage untouched.
\<close>

theorem error_parameter_denies:
  assumes "get_param (location_search s) ''error'' = Some e" and "e \<noteq> []"
  shows "fst (handleAuthCallback net s) = AuthDenied e
    \<and> returned (fst (handleAuthCallback net s)) = None
    \<and> requests (snd (handleAuthCallback net s)) = requests s
    \<and> accessToken (snd (handleAuthCallback net s)) = accessToken s
    \<and> sessionStorage (snd (handleAuthCallback net s)) = sessionStorage s
    \<and> authStatus (snd (handleAuthCallback net s)) = cross_mark @ '' Authentication failed''
    \<and> logs (snd (handleAuthCallback net s)) =
        logs s @ [\<lparr>timestamp = clock s, message = ''Authentication error: '' @ e,
                   entry_type = ''error''\<rparr>]"
  by (simp add: handleAuthCallback_denied [OF assms] setAuthStatus_def log_js_def)

text \<open>
  The provider answers \<^verbatim>\<open>?error=access_denied\<close> while a verifier is stored and the
  token endpoint would grant a token: no request leaves.
\<close>

theorem error_parameter_denies_witness:
  "fst (handleAuthCallback (token_granted ''tok'')
          (callback_page [(''error'', ''access_denied'')] (Some ''v'') fresh_page))
     = AuthDenied ''access_denied''
   \<and> requests (snd (handleAuthCallback (token_granted ''tok'')
          (callback_page [(''error'', ''access_denied'')] (Some ''v'') fresh_page))) = []"
  using error_parameter_denies [of
      "callback_page [(''error'', ''access_denied'')] (Some ''v'') fresh_page"
      "''access_denied''" "token_granted ''tok''"]
  by (simp add: get_param_def fresh_page_def callback_page_def)

text \<open>
  The claim as stated fails on an \<^verbatim>\<open>error\<close> parameter that is empty
  (\<^verbatim>\<open>?error=&code=abc\<close>): the empty string is falsy, the callback goes on to the
  code, and the token exchange is sent.
\<close>

theorem empty_error_counterexample:
  "fst (handleAuthCallback (token_granted ''tok'')
          (callback_page [(''error'', ''''), (''code'', ''abc'')] (Some ''v'') fresh_page))
     = Authenticated ''tok''
   \<and> map body (requests (snd (handleAuthCallback (token_granted ''tok'')
          (callback_page [(''error'', ''''), (''code'', ''abc'')] (Some ''v'') fresh_page)))) =
      [''grant_type=authorization_code&code=abc&redirect_uri=http%3A%2F%2Flocalhost%3A3000%2F&client_id=994bacff4dea4100864d3197b151fe95&code_verifier=v'']"
  by (simp add: run_defs uri_defs)

text \<open>
  Claim C4, as the code has it. With no verifier stored (the key absent, or its value
  empty) \<^verbatim>\<open>handleAuthCallback\<close> sends no request and returns nothing, whatever the
  URL; and when the URL has a non-empty \<^verbatim>\<open>code\<close> and no non-empty \<^verbatim>\<open>error\<close>, it
  fails with \<open>MissingVerifier\<close>, which the \<^verbatim>\<open>catch\<close> logs.
\<close>

theorem missing_verifier_no_request:
  assumes "\<not> truthy (sessionStorage s ''code_verifier'')"
  shows "requests (snd (handleAuthCallback net s)) = requests s
    \<and> returned (fst (handleAuthCallback net s)) = None
    \<and> (truthy (get_param (location_search s) ''code'')
        \<and> \<not> truthy (get_param (location_search s) ''error'') \<longrightarrow>
          fst (handleAuthCallback net s) = ExchangeError MissingVerifier
          \<and> authStatus (snd (handleAuthCallback net s)) = cross_mark @ '' Token exchange failed''
          \<and> message (last (logs (snd (handleAuthCallback net s))))
              = ''Token exchange error: Code verifier not found'')"
  using assms
  by (simp add: handleAuthCallback_def exchange_missing Let_def setAuthStatus_def log_js_def)

text \<open>\<^verbatim>\<open>?code=abc\<close> in a tab whose session storage is empty.\<close>

theorem missing_verifier_no_request_witness:
  "fst (handleAuthCallback (token_granted ''tok'')
          (callback_page [(''code'', ''abc'')] None fresh_page)) = ExchangeError MissingVerifier
   \<and> requests (snd (handleAuthCallback (token_granted ''tok'')
          (callback_page [(''code'', ''abc'')] None fresh_page))) = []"
  using missing_verifier_no_request [of
      "callback_page [(''code'', ''abc'')] None fresh_page" "token_granted ''tok''"]
  by (simp add: get_param_def truthy_def fresh_page_def callback_page_def)

text \<open>
  The claim as stated fails on two URLs that contain a \<^verbatim>\<open>code\<close> parameter, with no
  verifier stored: \<^verbatim>\<open>?code=\<close> is treated as no pending authentication, and
  \<^verbatim>\<open>?code=abc&error=access_denied\<close> ends in \<open>AuthDenied\<close>. Neither is
  \<open>MissingVerifier\<close>.
\<close>

theorem code_parameter_counterexample:
  "fst (handleAuthCallback (token_granted ''tok'')
          (callback_page [(''code'', '''')] None fresh_page)) = NoPendingAuthentication
   \<and> fst (handleAuthCallback (token_granted ''tok'')
          (callback_page [(''code'', ''abc''), (''error'', ''access_denied'')] None fresh_page))
       = AuthDenied ''access_denied''"
  by (simp add: run_defs)

section \<open>Properties of the playback device\<close>

lemma log_js_credential [simp]:
  "accessToken (log_js m ty s) = accessToken s"
  by (simp add: log_js_def)

lemma setAuthStatus_credential [simp]:
  "accessToken (setAuthStatus v s) = accessToken s"
  by (simp add: setAuthStatus_def)






text \<open>
  Nothing that happens afterwards writes the access token or replaces the device.
\<close>

lemma stop_all_keeps [simp]:
  "player (stop_all stream s) = player s"
  "accessToken (stop_all stream s) = accessToken s"
  unfolding stop_all_def by (induction stream arbitrary: s) (simp_all add: stop_def)









lemma check_active_fields:
  "currentTrack (check_active cs s) = currentTrack s"
  "isPaused (check_active cs s) = isPaused s"
  by (simp_all add: check_active_def log_js_def split: option.splits)

text \<open>
  Claim C5. Whatever the state before, a \<^verbatim>\<open>player_state_changed\<close> event without
  payload returns normally, with \<^verbatim>\<open>currentTrack\<close> absent and \<^verbatim>\<open>isPaused\<close> true.
\<close>

theorem state_absent_resets:
  "thrown (player_state_changed None currentState s) = None
   \<and> currentTrack (committed (player_state_changed None currentState s)) = None
   \<and> isPaused (committed (player_state_changed None currentState s)) = True"
  by (simp add: player_state_changed_def committed_def thrown_def)

theorem state_absent_resets_witness:
  "currentTrack (committed (player_state_changed None None
      (fresh_page\<lparr>isPaused := False, currentTrack := Some ''Y - X''\<rparr>))) = None
   \<and> isPaused (committed (player_state_changed None None
      (fresh_page\<lparr>isPaused := False, currentTrack := Some ''Y - X''\<rparr>))) = True"
  using state_absent_resets [of None "fresh_page\<lparr>isPaused := False, currentTrack := Some ''Y - X''\<rparr>"]
  by simp

text \<open>
  Claim C6, as the code has it. An event whose payload carries a current track with
  at least one artist sets \<^verbatim>\<open>isPaused\<close> to the payload's flag and
  \<^verbatim>\<open>currentTrack\<close>, whatever it was, to the first artist's name, \<^verbatim>\<open> - \<close> and the
  track's name: for the track \<^verbatim>\<open>X\<close> by \<^verbatim>\<open>Y\<close>, paused, to \<^verbatim>\<open>Y - X\<close> and true. An
  event whose payload carries no current track sets \<^verbatim>\<open>isPaused\<close> and leaves
  \<^verbatim>\<open>currentTrack\<close> as it was.
\<close>

theorem state_changed_track:
  "(current_track (track_window st) = Some tr \<and> artists tr = first # others \<longrightarrow>
      thrown (player_state_changed (Some st) currentState s) = None
      \<and> isPaused (committed (player_state_changed (Some st) currentState s)) = paused st
      \<and> currentTrack (committed (player_state_changed (Some st) currentState s))
          = Some (artist_name first @ '' - '' @ track_name tr))
   \<and> (current_track (track_window st) = None \<longrightarrow>
      thrown (player_state_changed (Some st) currentState s) = None
      \<and> isPaused (committed (player_state_changed (Some st) currentState s)) = paused st
      \<and> currentTrack (committed (player_state_changed (Some st) currentState s)) = currentTrack s)"
  by (simp add: player_state_changed_def committed_def thrown_def Let_def check_active_fields
      log_js_def)

text \<open>The event of the claim, and an event without a current track.\<close>

theorem state_changed_track_witness:
  "isPaused (committed (player_state_changed
      (Some \<lparr>paused = True, track_window = \<lparr>current_track =
         Some \<lparr>track_name = ''X'', artists = [\<lparr>artist_name = ''Y''\<rparr>]\<rparr>\<rparr>\<rparr>)
      None (fresh_page\<lparr>isPaused := False\<rparr>))) = True
   \<and> currentTrack (committed (player_state_changed
      (Some \<lparr>paused = True, track_window = \<lparr>current_track =
         Some \<lparr>track_name = ''X'', artists = [\<lparr>artist_name = ''Y''\<rparr>]\<rparr>\<rparr>\<rparr>)
      None (fresh_page\<lparr>isPaused := False\<rparr>))) = Some ''Y - X''
   \<and> currentTrack (committed (player_state_changed
      (Some \<lparr>paused = False, track_window = \<lparr>current_track = None\<rparr>\<rparr>)
      None (fresh_page\<lparr>currentTrack := Some ''Y - X''\<rparr>))) = Some ''Y - X''"
  using state_changed_track [of
      "\<lparr>paused = True, track_window = \<lparr>current_track =
         Some \<lparr>track_name = ''X'', artists = [\<lparr>artist_name = ''Y''\<rparr>]\<rparr>\<rparr>\<rparr>"
      "\<lparr>track_name = ''X'', artists = [\<lparr>artist_name = ''Y''\<rparr>]\<rparr>"
      "\<lparr>artist_name = ''Y''\<rparr>" "[]" None "fresh_page\<lparr>isPaused := False\<rparr>"]
    state_changed_track [of
      "\<lparr>paused = False, track_window = \<lparr>current_track = None\<rparr>\<rparr>"
      "\<lparr>track_name = ''X'', artists = [\<lparr>artist_name = ''Y''\<rparr>]\<rparr>"
      "\<lparr>artist_name = ''Y''\<rparr>" "[]" None "fresh_page\<lparr>currentTrack := Some ''Y - X''\<rparr>"]
  by simp

text \<open>
  The claim as stated fails: one and the same event, a payload without current track,
  leaves \<^verbatim>\<open>Y - X\<close> where it was shown before and nothing where nothing was shown. The
  track is not recomputed from that event.
\<close>

theorem stale_track_counterexample:
  "currentTrack (committed (player_state_changed
      (Some \<lparr>paused = False, track_window = \<lparr>current_track = None\<rparr>\<rparr>)
      (Some \<lparr>paused = False, track_window = \<lparr>current_track = None\<rparr>\<rparr>)
      (fresh_page\<lparr>currentTrack := Some ''Y - X''\<rparr>))) = Some ''Y - X''
   \<and> currentTrack (committed (player_state_changed
      (Some \<lparr>paused = False, track_window = \<lparr>current_track = None\<rparr>\<rparr>)
      (Some \<lparr>paused = False, track_window = \<lparr>current_track = None\<rparr>\<rparr>)
      fresh_page)) = None"
  by (simp add: player_state_changed_def committed_def check_active_def fresh_page_def)

section \<open>Properties of the capture probes\<close>

lemma test_media_recorder_result:
  "fst (test_media_recorder recorder results s)
     = (if recorder = Defined (Inr True) then results\<lparr>mediaRecorder := True\<rparr> else results)"
  by (simp add: test_media_recorder_def split: media_recorder.splits sum.splits)

lemma testAudioCapture_result:
  "audioCaptureResult (testAudioCapture answer recorder s) =
     Some (fst (test_media_recorder recorder
       (fst (test_system_audio answer
          \<lparr>displayMedia = False, webAudio = True, mediaRecorder = False, error = None\<rparr>
          (log_js (speaker_mark @ '' CRITICAL TEST: Testing audio capture capabilities...'')
             ''warning'' s)))
       (snd (test_system_audio answer
          \<lparr>displayMedia = False, webAudio = True, mediaRecorder = False, error = None\<rparr>
          (log_js (speaker_mark @ '' CRITICAL TEST: Testing audio capture capabilities...'')
             ''warning'' s)))))"
  by (simp add: testAudioCapture_def Let_def split: prod.splits)

lemma testAudioCapture_throw_result:
  "audioCaptureResult (testAudioCapture (Inl m) recorder s) =
     Some \<lparr>displayMedia = False, webAudio = True,
           mediaRecorder = (recorder = Defined (Inr True)), error = Some m\<rparr>"
  by (simp add: testAudioCapture_result test_media_recorder_result test_system_audio_def Let_def)

lemma testAudioCapture_throw_trace:
  "logs (testAudioCapture (Inl m) recorder s) =
     logs s @ map (\<lambda>(msg, ty). \<lparr>timestamp = clock s, message = msg, entry_type = ty\<rparr>)
       ([(speaker_mark @ '' CRITICAL TEST: Testing audio capture capabilities...'', ''warning''),
         (''Testing getDisplayMedia for system audio...'', ''info''),
         (cross_mark @ '' System audio capture failed: '' @ m, ''error'')]
        @ (case recorder of
             Undefined \<Rightarrow> []
           | Defined (Inl e) \<Rightarrow> [(''MediaRecorder test failed: '' @ e, ''error'')]
           | Defined (Inr supported) \<Rightarrow>
               if supported then [(check_mark @ '' MediaRecorder supported'', ''success'')] else [])
        @ [(red_mark @ '' VERDICT: Audio capture NOT possible - Recommend built-in player'',
            ''error'')])"
  by (simp add: testAudioCapture_def test_system_audio_def test_media_recorder_def Let_def
      logs_log_js split: media_recorder.splits sum.splits)

text \<open>
  Claim C7. When the system-audio check throws with message \<open>m\<close>, the probe still
  publishes a verdict: system audio unavailable, the error text \<open>m\<close>, and the
  recorder field as the second check finds it (true exactly when \<^verbatim>\<open>MediaRecorder\<close>
  exists and supports \<^verbatim>\<open>audio/webm\<close>). The trace shows the second check running
  after the failure of the first, and the probe's last line.
\<close>

theorem capture_throw_recorded:
  "audioCaptureResult (testAudioCapture (Inl m) recorder s) =
     Some \<lparr>displayMedia = False, webAudio = True,
           mediaRecorder = (recorder = Defined (Inr True)), error = Some m\<rparr>
   \<and> logs (testAudioCapture (Inl m) recorder s) =
     logs s @ map (\<lambda>(msg, ty). \<lparr>timestamp = clock s, message = msg, entry_type = ty\<rparr>)
       ([(speaker_mark @ '' CRITICAL TEST: Testing audio capture capabilities...'', ''warning''),
         (''Testing getDisplayMedia for system audio...'', ''info''),
         (cross_mark @ '' System audio capture failed: '' @ m, ''error'')]
        @ (case recorder of
             Undefined \<Rightarrow> []
           | Defined (Inl e) \<Rightarrow> [(''MediaRecorder test failed: '' @ e, ''error'')]
           | Defined (Inr supported) \<Rightarrow>
               if supported then [(check_mark @ '' MediaRecorder supported'', ''success'')] else [])
        @ [(red_mark @ '' VERDICT: Audio capture NOT possible - Recommend built-in player'',
            ''error'')])"
  using testAudioCapture_throw_result testAudioCapture_throw_trace by (rule conjI)

text \<open>Permission denied while \<^verbatim>\<open>MediaRecorder\<close> supports \<^verbatim>\<open>audio/webm\<close>.\<close>

theorem capture_throw_recorded_witness:
  "audioCaptureResult (testAudioCapture (Inl ''Permission denied'') (Defined (Inr True)) fresh_page)
     = Some \<lparr>displayMedia = False, webAudio = True, mediaRecorder = True,
             error = Some ''Permission denied''\<rparr>
   \<and> map message (logs (testAudioCapture (Inl ''Permission denied'') (Defined (Inr True)) fresh_page))
     = [speaker_mark @ '' CRITICAL TEST: Testing audio capture capabilities...'',
        ''Testing getDisplayMedia for system audio...'',
        cross_mark @ '' System audio capture failed: Permission denied'',
        check_mark @ '' MediaRecorder supported'',
        red_mark @ '' VERDICT: Audio capture NOT possible - Recommend built-in player'']"
  using capture_throw_recorded [of "''Permission denied''" "Defined (Inr True)" fresh_page]
  by (simp add: fresh_page_def)

text \<open>
  Claim C10. Whatever the platform answers to either check, the verdict that
  \<^verbatim>\<open>testAudioCapture\<close> publishes has \<^verbatim>\<open>webAudio\<close> true.
\<close>

theorem webAudio_always_true:
  "map_option webAudio (audioCaptureResult (testAudioCapture answer recorder s)) = Some True"
  by (simp add: testAudioCapture_result test_media_recorder_result test_system_audio_def Let_def
      split: sum.splits)

theorem webAudio_always_true_witness:
  "map_option webAudio (audioCaptureResult
      (testAudioCapture (Inr [\<lparr>track_id = 1, kind = VideoTrack\<rparr>]) Undefined fresh_page))
     = Some True"
  using webAudio_always_true [of "Inr [\<lparr>track_id = 1, kind = VideoTrack\<rparr>]" Undefined fresh_page]
  by simp

lemma open_contexts_stop_all [simp]: "open_contexts (stop_all stream s) = open_contexts s"
  unfolding stop_all_def by (induction stream arbitrary: s) (simp_all add: stop_def)

lemma live_tracks_stop_all:
  "live_tracks (stop_all stream s) = filter (\<lambda>i. i \<notin> track_id ` set stream) (live_tracks s)"
proof (induction stream arbitrary: s)
  case Nil
  show ?case by (simp add: stop_all_def)
next
  case (Cons t stream)
  have "live_tracks (stop_all (t # stream) s) = live_tracks (stop_all stream (stop t s))"
    by (simp add: stop_all_def)
  also have "\<dots> = filter (\<lambda>i. i \<notin> track_id ` set stream) (live_tracks (stop t s))"
    by (rule Cons.IH)
  also have "\<dots> = filter (\<lambda>i. i \<notin> track_id ` set (t # stream)) (live_tracks s)"
    by (auto simp: stop_def intro: filter_cong)
  finally show ?case .
qed

text \<open>
  When nothing throws, \<^verbatim>\<open>testFullAudioMixing\<close> does release what it acquired: no
  track of either stream stays engaged and the audio context is closed again.
\<close>

lemma mixing_success_releases:
  "set (live_tracks (testFullAudioMixing (Inr micStream) (Inr systemStream) None None s))
     \<inter> track_id ` (set micStream \<union> set systemStream) = {}
   \<and> open_contexts (testFullAudioMixing (Inr micStream) (Inr systemStream) None None s)
       = open_contexts s"
  by (auto simp: testFullAudioMixing_def Let_def live_tracks_stop_all acquire_def)

text \<open>
  Claim C8 does not hold of the code: the cleanup is the last statement inside the
  \<^verbatim>\<open>try\<close> block, so a throw skips it. When \<^verbatim>\<open>getDisplayMedia\<close> rejects after
  the microphone was granted, the microphone track 1 stays engaged; when the graph
  construction throws, both tracks stay engaged and the audio context stays open.
\<close>

theorem mixing_failure_leaks:
  "live_tracks (testFullAudioMixing
      (Inr [\<lparr>track_id = 1, kind = AudioTrack\<rparr>]) (Inl ''Permission denied'') None None fresh_page)
     = [1]
   \<and> live_tracks (testFullAudioMixing
      (Inr [\<lparr>track_id = 1, kind = AudioTrack\<rparr>]) (Inr [\<lparr>track_id = 2, kind = VideoTrack\<rparr>])
      None (Some ''InvalidStateError'') fresh_page) = [1, 2]
   \<and> open_contexts (testFullAudioMixing
      (Inr [\<lparr>track_id = 1, kind = AudioTrack\<rparr>]) (Inr [\<lparr>track_id = 2, kind = VideoTrack\<rparr>])
      None (Some ''InvalidStateError'') fresh_page) = 1"
  by (simp add: testFullAudioMixing_def mixing_failed_def acquire_def log_js_def fresh_page_def
      Let_def)

end
